theory Spec2Isabelle
  imports Main "HOL-Library.AList"
begin

section \<open>The automation controller of the crypto dashboard\<close>

text \<open>
  A shallow embedding of \<^verbatim>\<open>backend/automation_controller.py\<close>, class
  \<^verbatim>\<open>AutomationController\<close>.

  \<^item> A task is the inner dict of \<^verbatim>\<open>self.tasks\<close>, one field per key.
  \<^item> \<^verbatim>\<open>self.tasks\<close> is a Python dict whose key set never changes; it is an
    association list in insertion order, read with \<open>map_of\<close>. The inner dict is mutated in
    place, which is \<open>AList.map_entry\<close> here.
  \<^item> \<^verbatim>\<open>datetime.now().isoformat()\<close> is the instant it denotes, in seconds (an \<open>int\<close>).
  \<^item> The status strings \<^verbatim>\<open>"stopped"\<close>, \<^verbatim>\<open>"running"\<close>, \<^verbatim>\<open>"error"\<close> are the only
    values ever stored under \<^verbatim>\<open>"status"\<close>; they are a datatype.
  \<^item> What the environment decides (the clock, the result of \<^verbatim>\<open>subprocess.run\<close>,
    whether a thread could be started) is an argument of the operation.
  \<^item> \<^verbatim>\<open>print\<close> is not modelled.
\<close>

subsection \<open>Data\<close>

datatype status = Stopped | Running | Error

type_synonym timestamp = int

type_synonym thread = nat

record task =
  name :: string
  script :: string
  interval :: int
  status :: status
  last_run :: "timestamp option"
  next_run :: "timestamp option"
  success_count :: int
  error_count :: int
  last_error :: "string option"
  process :: "unit option"
  thread :: "thread option"

record controller =
  tasks :: "(string \<times> task) list"
  is_running :: bool
  start_time :: timestamp

text \<open>The result of one \<^verbatim>\<open>subprocess.run(..., capture_output=True, text=True, timeout=...)\<close>:
  it returns a completed process (return code, standard output, standard error), or raises
  \<^verbatim>\<open>subprocess.TimeoutExpired\<close>, or raises another exception whose \<^verbatim>\<open>str(e)\<close> is given.\<close>

datatype outcome =
  Completed int string string
| TimeoutExpired
| Raised string

text \<open>Creating and starting the worker thread either gives its handle or raises.\<close>

datatype spawn = Spawned thread | SpawnFailed string


subsection \<open>The registry built by the constructor\<close>

definition new_task :: "string \<Rightarrow> string \<Rightarrow> int \<Rightarrow> task" where
  "new_task n sc iv =
     \<lparr>name = n, script = sc, interval = iv, status = Stopped, last_run = None,
      next_run = None, success_count = 0, error_count = 0, last_error = None,
      process = None, thread = None\<rparr>"

definition init :: "timestamp \<Rightarrow> controller" where
  "init now =
     \<lparr>tasks =
        [(''enhanced_data_collection'',
            new_task ''Enhanced Data Collection'' ''enhanced_data_collector.py'' 300),
         (''news_aggregation'', new_task ''News Aggregation'' ''fetch_news.py'' 1800),
         (''market_analysis'', new_task ''Market Analysis'' ''advanced_analysis.py'' 3600)],
      is_running = False,
      start_time = now\<rparr>"

subsection \<open>Reading and writing one task\<close>

definition get_task :: "controller \<Rightarrow> string \<Rightarrow> task option" where
  "get_task s task_id = map_of (tasks s) task_id"

definition update_task :: "string \<Rightarrow> (task \<Rightarrow> task) \<Rightarrow> controller \<Rightarrow> controller" where
  "update_task task_id f s = s\<lparr>tasks := AList.map_entry task_id f (tasks s)\<rparr>"

subsection \<open>Recording the outcome of one execution\<close>

text \<open>
  Lines 86-106 of \<^verbatim>\<open>run_script\<close> and lines 345-365 of \<^verbatim>\<open>run_once\<close> are the same
  statements on the same task dict: the branch on \<^verbatim>\<open>result.returncode == 0\<close>, and the two
  \<^verbatim>\<open>except\<close> handlers. They give the value returned and the writes to the task.
  \<^verbatim>\<open>x[:200]\<close> is \<open>take 200 x\<close>.
\<close>

definition record_outcome :: "outcome \<Rightarrow> task \<Rightarrow> bool \<times> task" where
  "record_outcome oc t =
     (case oc of
        Completed returncode out err \<Rightarrow>
          if returncode = 0
          then (True, t\<lparr>success_count := success_count t + 1, last_error := None\<rparr>)
          else (False, t\<lparr>error_count := error_count t + 1,
                          last_error := Some (if err \<noteq> [] then take 200 err
                                              else ''Unknown error'')\<rparr>)
      | TimeoutExpired \<Rightarrow>
          (False, t\<lparr>error_count := error_count t + 1,
                    last_error := Some ''Script timed out after 10 minutes''\<rparr>)
      | Raised e \<Rightarrow>
          (False, t\<lparr>error_count := error_count t + 1, last_error := Some (take 200 e)\<rparr>))"

subsection \<open>\<^verbatim>\<open>run_script\<close>\<close>

text \<open>
  Lines 74-75, before the command runs: \<open>run_script_begin\<close>. Lines 86-106 and the
  \<^verbatim>\<open>finally\<close> block, lines 109-120, once the command has ended: \<open>run_script_end\<close>. The
  worker thread is inside \<^verbatim>\<open>subprocess.run\<close> between the two.

  For a \<^verbatim>\<open>task_id\<close> that is no key of \<^verbatim>\<open>self.tasks\<close>, line 74 raises \<^verbatim>\<open>KeyError\<close>, the
  handler of line 102 raises it again at line 103, the \<^verbatim>\<open>finally\<close> block skips its body
  and the exception leaves the call.
\<close>

definition run_script_begin :: "string \<Rightarrow> timestamp \<Rightarrow> controller \<Rightarrow> controller" where
  "run_script_begin task_id now s =
     update_task task_id (\<lambda>t. t\<lparr>last_run := Some now, status := Running\<rparr>) s"

definition run_script_finally :: "timestamp \<Rightarrow> task \<Rightarrow> task" where
  "run_script_finally now t =
     (let t1 = (if status t = Running then t else t\<lparr>status := Stopped\<rparr>)
      in t1\<lparr>next_run := Some (now + interval t1)\<rparr>)"

definition run_script_end :: "string \<Rightarrow> outcome \<Rightarrow> timestamp \<Rightarrow> controller \<Rightarrow> bool \<times> controller" where
  "run_script_end task_id oc now s =
     (case get_task s task_id of
        None \<Rightarrow> (False, s)
      | Some t \<Rightarrow>
          (fst (record_outcome oc t),
           update_task task_id (\<lambda>t. run_script_finally now (snd (record_outcome oc t))) s))"


subsection \<open>\<^verbatim>\<open>start_task\<close>, \<^verbatim>\<open>stop_task\<close>, \<^verbatim>\<open>run_once\<close>\<close>

text \<open>
  \<^verbatim>\<open>start_task\<close>: lines 157-158 have run when the thread is created, so a failure to
  create or start it (the handler of lines 169-173) finds them done.
\<close>

definition start_task :: "string \<Rightarrow> timestamp \<Rightarrow> spawn \<Rightarrow> controller \<Rightarrow> bool \<times> controller" where
  "start_task task_id now sp s =
     (case get_task s task_id of
        None \<Rightarrow> (False, s)
      | Some task \<Rightarrow>
          if status task = Running then (True, s)
          else
            (let s1 = update_task task_id
                        (\<lambda>t. t\<lparr>status := Running, next_run := Some (now + interval t)\<rparr>) s
             in case sp of
                  Spawned th \<Rightarrow> (True, update_task task_id (\<lambda>t. t\<lparr>thread := Some th\<rparr>) s1)
                | SpawnFailed e \<Rightarrow>
                    (False, update_task task_id
                              (\<lambda>t. t\<lparr>status := Error, last_error := Some e\<rparr>) s1)))"

text \<open>
  \<^verbatim>\<open>stop_task\<close>: \<^verbatim>\<open>join(timeout=5)\<close> blocks the caller for at most five seconds and writes
  nothing; the handle is cleared whether or not the worker has ended. The stored thread has
  always been started and is never the caller, so \<^verbatim>\<open>is_alive\<close> and \<^verbatim>\<open>join\<close> do not raise.
\<close>

definition stop_task :: "string \<Rightarrow> controller \<Rightarrow> bool \<times> controller" where
  "stop_task task_id s =
     (case get_task s task_id of
        None \<Rightarrow> (False, s)
      | Some task \<Rightarrow>
          (True, update_task task_id
                   (\<lambda>t. t\<lparr>status := Stopped, next_run := None, thread := None\<rparr>) s))"

definition run_once :: "string \<Rightarrow> timestamp \<Rightarrow> outcome \<Rightarrow> controller \<Rightarrow> bool \<times> controller" where
  "run_once task_id now oc s =
     (case get_task s task_id of
        None \<Rightarrow> (False, s)
      | Some task \<Rightarrow>
          (let original_status = status task
           in (fst (record_outcome oc (task\<lparr>last_run := Some now\<rparr>)),
               update_task task_id
                 (\<lambda>t. (snd (record_outcome oc (t\<lparr>last_run := Some now\<rparr>)))
                         \<lparr>status := original_status\<rparr>) s)))"

subsection \<open>\<^verbatim>\<open>get_status\<close>\<close>

text \<open>
  The record counts come from a child process that prints them on one line, separated by
  commas. \<^verbatim>\<open>result.stdout.strip().split(',')\<close> is \<open>split_comma (strip out)\<close>;
  \<^verbatim>\<open>str.strip\<close> removes the characters for which \<^verbatim>\<open>str.isspace\<close> holds, and
  \<^verbatim>\<open>split\<close> always gives at least one field. Python's \<^verbatim>\<open>int\<close> on a string is the
  argument \<open>py_int\<close>: \<open>Some n\<close> when it returns \<open>n\<close>, \<open>None\<close> when it raises
  \<^verbatim>\<open>ValueError\<close>.
\<close>

definition isspace :: "char \<Rightarrow> bool" where
  "isspace c =
     (let n = (of_char c :: nat)
      in (9 \<le> n \<and> n \<le> 13) \<or> (28 \<le> n \<and> n \<le> 32) \<or> n = 133 \<or> n = 160)"

definition strip :: "string \<Rightarrow> string" where
  "strip x = rev (dropWhile isspace (rev (dropWhile isspace x)))"

fun split_comma :: "string \<Rightarrow> string list" where
  "split_comma [] = [[]]"
| "split_comma (c # cs) =
     (if c = CHR '','' then [] # split_comma cs
      else (case split_comma cs of
              [] \<Rightarrow> [[c]]
            | f # fs \<Rightarrow> (c # f) # fs))"

text \<open>Lines 254-257. \<open>None\<close> is a \<^verbatim>\<open>ValueError\<close> of one of the three conversions.\<close>

definition field_count :: "(string \<Rightarrow> int option) \<Rightarrow> string list \<Rightarrow> nat \<Rightarrow> int option" where
  "field_count py_int counts i = (if length counts > i then py_int (counts ! i) else Some 0)"

definition parse_counts :: "(string \<Rightarrow> int option) \<Rightarrow> string \<Rightarrow> (int \<times> int \<times> int) option" where
  "parse_counts py_int out =
     (let counts = split_comma (strip out)
      in case field_count py_int counts 0 of
           None \<Rightarrow> None
         | Some n_total \<Rightarrow>
             (case field_count py_int counts 1 of
                None \<Rightarrow> None
              | Some n_news \<Rightarrow>
                  (case field_count py_int counts 2 of
                     None \<Rightarrow> None
                   | Some n_coins \<Rightarrow> Some (n_total, n_news, n_coins))))"

text \<open>Lines 222-267: the \<^verbatim>\<open>try\<close> block and its handler, which catches every exception.\<close>

definition query_counts :: "(string \<Rightarrow> int option) \<Rightarrow> outcome \<Rightarrow> int \<times> int \<times> int" where
  "query_counts py_int q =
     (case q of
        Completed returncode out err \<Rightarrow>
          if returncode = 0
          then (case parse_counts py_int out of None \<Rightarrow> (0, 0, 0) | Some c \<Rightarrow> c)
          else (0, 0, 0)
      | TimeoutExpired \<Rightarrow> (0, 0, 0)
      | Raised e \<Rightarrow> (0, 0, 0))"

text \<open>The decimal digits that \<^verbatim>\<open>int\<close> accepts without sign, space or underscore.\<close>

definition digit_val :: "char \<Rightarrow> int option" where
  "digit_val c =
     (let n = (of_char c :: nat) in if 48 \<le> n \<and> n \<le> 57 then Some (int n - 48) else None)"

fun digits_acc :: "int \<Rightarrow> string \<Rightarrow> int option" where
  "digits_acc acc [] = Some acc"
| "digits_acc acc (c # cs) =
     (case digit_val c of None \<Rightarrow> None | Some d \<Rightarrow> digits_acc (acc * 10 + d) cs)"

definition int_of_digits :: "string \<Rightarrow> int option" where
  "int_of_digits x = (if x = [] then None else digits_acc 0 x)"

text \<open>The dict that \<^verbatim>\<open>get_status\<close> returns. \<^verbatim>\<open>uptime\<close> is kept as its hours and minutes
  rather than the string \<^verbatim>\<open>f"{hours}h {minutes}m"\<close>.\<close>

record task_view =
  task_name :: string
  display_name :: string
  status_v :: status
  last_run_v :: "timestamp option"
  next_run_v :: "timestamp option"
  success_count_v :: int
  error_count_v :: int
  last_error_v :: "string option"
  interval_minutes :: int

record system_health =
  database_status :: string
  api_status :: string
  scheduler_status :: string
  total_records :: int
  latest_update :: timestamp
  uptime :: "int \<times> int"

record data_stats =
  total_price_records :: int
  total_news_articles :: int
  coins_tracked :: int
  last_data_update :: timestamp
  update_frequency :: string

record status_view =
  tasks_v :: "task_view list"
  system_health_v :: system_health
  data_stats_v :: data_stats

definition view_of :: "string \<times> task \<Rightarrow> task_view" where
  "view_of p =
     (case p of (task_id, task_data) \<Rightarrow>
        \<lparr>task_name = task_id,
         display_name = name task_data,
         status_v = status task_data,
         last_run_v = last_run task_data,
         next_run_v = next_run task_data,
         success_count_v = success_count task_data,
         error_count_v = error_count task_data,
         last_error_v = last_error task_data,
         interval_minutes = interval task_data div 60\<rparr>)"

text \<open>Lines 280-284: the greatest \<^verbatim>\<open>last_run\<close> of the tasks that have one.\<close>

fun latest :: "timestamp option \<Rightarrow> task list \<Rightarrow> timestamp option" where
  "latest lu [] = lu"
| "latest lu (t # ts) =
     latest
       (case last_run t of
          None \<Rightarrow> lu
        | Some r \<Rightarrow> (case lu of None \<Rightarrow> Some r | Some l \<Rightarrow> if r > l then Some r else Some l))
       ts"

text \<open>\<^verbatim>\<open>get_status\<close> writes nothing: the controller it returns is the one it was given.\<close>

definition get_status ::
  "(string \<Rightarrow> int option) \<Rightarrow> outcome \<Rightarrow> timestamp \<Rightarrow> controller \<Rightarrow> status_view \<times> controller" where
  "get_status py_int q now s =
     (case query_counts py_int q of (n_total, n_news, n_coins) \<Rightarrow>
        (let uptime_seconds = now - start_time s;
             hours = uptime_seconds div 3600;
             minutes = (uptime_seconds mod 3600) div 60;
             running_tasks = filter (\<lambda>t. status t = Running) (map snd (tasks s));
             latest_upd =
               (case latest None (map snd (tasks s)) of None \<Rightarrow> now | Some l \<Rightarrow> l)
         in (\<lparr>tasks_v = map view_of (tasks s),
              system_health_v =
                \<lparr>database_status = (if n_total > 0 then ''connected'' else ''disconnected''),
                 api_status = ''healthy'',
                 scheduler_status = (if running_tasks \<noteq> [] then ''running'' else ''stopped''),
                 total_records = n_total,
                 latest_update = latest_upd,
                 uptime = (hours, minutes)\<rparr>,
              data_stats_v =
                \<lparr>total_price_records = n_total,
                 total_news_articles = n_news,
                 coins_tracked = n_coins,
                 last_data_update = latest_upd,
                 update_frequency = (if running_tasks \<noteq> [] then ''5 minutes'' else ''Manual'')\<rparr>\<rparr>,
             s)))"

subsection \<open>\<^verbatim>\<open>task_worker\<close>\<close>

text \<open>
  The handler of lines 138-142, which ends the worker: it writes the status and the whole
  text of the exception, and leaves the \<^verbatim>\<open>thread\<close> entry as it is.
\<close>

definition worker_crash :: "string \<Rightarrow> string \<Rightarrow> controller \<Rightarrow> controller" where
  "worker_crash task_id e s =
     update_task task_id (\<lambda>t. t\<lparr>status := Error, last_error := Some e\<rparr>) s"


subsection \<open>Whole operations, one after the other\<close>




subsection \<open>Worker threads running beside the controller\<close>

text \<open>
  Where a worker thread stands in \<^verbatim>\<open>task_worker\<close>:
  \<^item> \<open>AtLoop\<close>: about to test \<^verbatim>\<open>task["status"] == "running"\<close>, line 126;
  \<^item> \<open>AtRun\<close>: in the loop body, about to run lines 74-75 of \<^verbatim>\<open>run_script\<close>;
  \<^item> \<open>InCommand\<close>: inside \<^verbatim>\<open>subprocess.run\<close>, line 78;
  \<^item> \<open>Sleeping k\<close>: in the \<^verbatim>\<open>for\<close> loop of line 133, \<open>k\<close> rounds left;
  \<^item> \<open>Exited\<close>: the function has returned and the thread is dead.
\<close>

datatype pc = AtLoop | AtRun | InCommand | Sleeping nat | Exited

text \<open>The next statement of a worker; the clock and the command's outcome are read where
  the statement needs them.\<close>

definition worker_step ::
  "string \<Rightarrow> pc \<Rightarrow> timestamp \<Rightarrow> outcome \<Rightarrow> controller \<Rightarrow> pc \<times> controller" where
  "worker_step task_id p now oc s =
     (case get_task s task_id of
        None \<Rightarrow> (Exited, s)
      | Some t \<Rightarrow>
          (case p of
             AtLoop \<Rightarrow> if status t = Running then (AtRun, s) else (Exited, s)
           | AtRun \<Rightarrow> (InCommand, run_script_begin task_id now s)
           | InCommand \<Rightarrow>
               (Sleeping (nat (interval t)), snd (run_script_end task_id oc now s))
           | Sleeping k \<Rightarrow>
               (case k of
                  0 \<Rightarrow> (AtLoop, s)
                | Suc k' \<Rightarrow> if status t \<noteq> Running then (AtLoop, s) else (Sleeping k', s))
           | Exited \<Rightarrow> (Exited, s)))"

text \<open>
  The controller and the worker threads created so far, each with its handle, its task
  and its position. Calls of the controller are taken one at a time; the statements of the
  workers come between them in any order. \<^verbatim>\<open>stop_task\<close> waits at most five seconds for the
  worker and then returns, so a worker inside a command that lasts longer is still there
  after the call. A worker never reads the \<^verbatim>\<open>thread\<close> entry, so its statements during
  the wait have the same effect as after it.
\<close>

record system =
  ctl :: controller
  workers :: "(thread \<times> string \<times> pc) list"

datatype event =
  CallStart string timestamp
| CallStop string
| CallRunOnce string timestamp outcome
| Advance thread timestamp outcome
| Throw thread string

definition spawns :: "controller \<Rightarrow> string \<Rightarrow> bool" where
  "spawns s task_id =
     (case get_task s task_id of None \<Rightarrow> False | Some t \<Rightarrow> status t \<noteq> Running)"

fun advance :: "thread \<Rightarrow> timestamp \<Rightarrow> outcome \<Rightarrow> controller \<Rightarrow> (thread \<times> string \<times> pc) list
    \<Rightarrow> controller \<times> (thread \<times> string \<times> pc) list" where
  "advance th now oc s [] = (s, [])"
| "advance th now oc s ((h, task_id, p) # ws) =
     (if h = th
      then (case worker_step task_id p now oc s of (p', s') \<Rightarrow> (s', (h, task_id, p') # ws))
      else (case advance th now oc s ws of (s', ws') \<Rightarrow> (s', (h, task_id, p) # ws')))"

text \<open>An exception inside the \<^verbatim>\<open>try\<close> of the loop body reaches the handler of lines
  138-142 and the worker returns.\<close>

fun raise_in :: "thread \<Rightarrow> string \<Rightarrow> controller \<Rightarrow> (thread \<times> string \<times> pc) list
    \<Rightarrow> controller \<times> (thread \<times> string \<times> pc) list" where
  "raise_in th e s [] = (s, [])"
| "raise_in th e s ((h, task_id, p) # ws) =
     (if h = th
      then (if p = AtLoop \<or> p = Exited then (s, (h, task_id, p) # ws)
            else (worker_crash task_id e s, (h, task_id, Exited) # ws))
      else (case raise_in th e s ws of (s', ws') \<Rightarrow> (s', (h, task_id, p) # ws')))"

fun step :: "event \<Rightarrow> system \<Rightarrow> system" where
  "step (CallStart task_id now) sys =
     (let th = length (workers sys)
      in \<lparr>ctl = snd (start_task task_id now (Spawned th) (ctl sys)),
          workers = (if spawns (ctl sys) task_id
                     then workers sys @ [(th, task_id, AtLoop)] else workers sys)\<rparr>)"
| "step (CallStop task_id) sys = sys\<lparr>ctl := snd (stop_task task_id (ctl sys))\<rparr>"
| "step (CallRunOnce task_id now oc) sys = sys\<lparr>ctl := snd (run_once task_id now oc (ctl sys))\<rparr>"
| "step (Advance th now oc) sys =
     (case advance th now oc (ctl sys) (workers sys) of
        (s', ws') \<Rightarrow> \<lparr>ctl = s', workers = ws'\<rparr>)"
| "step (Throw th e) sys =
     (case raise_in th e (ctl sys) (workers sys) of
        (s', ws') \<Rightarrow> \<lparr>ctl = s', workers = ws'\<rparr>)"

definition run_events :: "event list \<Rightarrow> system \<Rightarrow> system" where
  "run_events es sys = fold step es sys"

definition boot :: "timestamp \<Rightarrow> system" where
  "boot now = \<lparr>ctl = init now, workers = []\<rparr>"

text \<open>The workers of a task that have not returned, and those inside its command.\<close>

definition active :: "system \<Rightarrow> string \<Rightarrow> thread list" where
  "active sys task_id =
     map fst (filter (\<lambda>w. fst (snd w) = task_id \<and> snd (snd w) \<noteq> Exited) (workers sys))"

definition executing :: "system \<Rightarrow> string \<Rightarrow> thread list" where
  "executing sys task_id =
     map fst (filter (\<lambda>w. fst (snd w) = task_id \<and> snd (snd w) = InCommand) (workers sys))"

subsection \<open>Predicates used in the statements\<close>




section \<open>Properties\<close>

subsection \<open>Writing one task leaves the others alone\<close>

lemma get_task_update:
  "get_task (update_task k f s) k' =
     (if k' = k then map_option f (get_task s k) else get_task s k')"
  by (simp add: get_task_def update_task_def map_of_map_entry split: option.splits)

lemma keys_map_entry: "map fst (AList.map_entry k f xs) = map fst xs"
  by (induction xs) auto

lemma keys_update: "map fst (tasks (update_task k f s)) = map fst (tasks s)"
  by (simp add: update_task_def keys_map_entry)

lemma get_task_init:
  "get_task (init now) ''news_aggregation''
     = Some (new_task ''News Aggregation'' ''fetch_news.py'' 1800)"
  by (simp add: init_def get_task_def)

subsection \<open>Starting a task that is running\<close>

text \<open>
  Claim C1. For a registered task whose status is \<open>Running\<close>, \<^verbatim>\<open>start_task\<close> returns
  \<open>True\<close> and the controller is what it was, whatever the clock says and whether or not a
  thread could have been created: status, next run, counters, last error and thread handle
  are untouched. With the worker threads in view, the call adds no worker.
\<close>

theorem start_task_running_idempotent:
  assumes "get_task (ctl sys) task_id = Some t" and "status t = Running"
  shows "start_task task_id now sp (ctl sys) = (True, ctl sys) \<and>
         step (CallStart task_id now) sys = sys"
  using assms by (simp add: start_task_def spawns_def)

theorem start_task_running_idempotent_witness:
  "get_task (ctl (step (CallStart ''news_aggregation'' 0) (boot 0))) ''news_aggregation''
     = Some ((new_task ''News Aggregation'' ''fetch_news.py'' 1800)
              \<lparr>status := Running, next_run := Some 1800, thread := Some 0\<rparr>) \<and>
   start_task ''news_aggregation'' 7 (Spawned 1)
       (ctl (step (CallStart ''news_aggregation'' 0) (boot 0)))
     = (True, ctl (step (CallStart ''news_aggregation'' 0) (boot 0))) \<and>
   step (CallStart ''news_aggregation'' 7) (step (CallStart ''news_aggregation'' 0) (boot 0))
     = step (CallStart ''news_aggregation'' 0) (boot 0)"
proof -
  let ?sys = "step (CallStart ''news_aggregation'' 0) (boot 0)"
  let ?t = "(new_task ''News Aggregation'' ''fetch_news.py'' 1800)
              \<lparr>status := Running, next_run := Some 1800, thread := Some 0\<rparr>"
  have h: "get_task (ctl ?sys) ''news_aggregation'' = Some ?t"
    by (simp add: boot_def init_def start_task_def get_task_def update_task_def new_task_def)
  have r: "status ?t = Running" by simp
  show ?thesis
    using h start_task_running_idempotent [OF h r, of 7 "Spawned 1"] by simp
qed

subsection \<open>Running a task once\<close>

text \<open>
  Claim C2. For a registered task, whatever its status before the call and whatever the
  outcome of the command, \<^verbatim>\<open>run_once\<close> leaves the task as it was except for
  \<^verbatim>\<open>last_run\<close>, the two counters and \<^verbatim>\<open>last_error\<close>: the status after the call is the
  status before it, \<^verbatim>\<open>next_run\<close>, name, script, interval and thread handle are unchanged,
  and so is every other task.
\<close>

theorem run_once_frame:
  assumes "get_task s task_id = Some t" and "run_once task_id now oc s = (r, s')"
  shows "(\<exists>sc ec le. get_task s' task_id =
            Some (t\<lparr>last_run := Some now, success_count := sc, error_count := ec,
                    last_error := le\<rparr>)) \<and>
         map_option status (get_task s' task_id) = Some (status t) \<and>
         map_option next_run (get_task s' task_id) = Some (next_run t) \<and>
         (\<forall>k. k \<noteq> task_id \<longrightarrow> get_task s' k = get_task s k) \<and>
         map fst (tasks s') = map fst (tasks s)"
proof -
  have s': "s' = update_task task_id
                 (\<lambda>u. (snd (record_outcome oc (u\<lparr>last_run := Some now\<rparr>)))
                         \<lparr>status := status t\<rparr>) s"
    using assms by (auto simp: run_once_def Let_def)
  have t': "get_task s' task_id =
              Some ((snd (record_outcome oc (t\<lparr>last_run := Some now\<rparr>)))\<lparr>status := status t\<rparr>)"
    using assms(1) by (simp add: s' get_task_update)
  have shape: "\<exists>sc ec le. (snd (record_outcome oc (t\<lparr>last_run := Some now\<rparr>)))\<lparr>status := status t\<rparr>
                 = t\<lparr>last_run := Some now, success_count := sc, error_count := ec, last_error := le\<rparr>"
    by (cases oc) (auto simp: record_outcome_def intro!: exI task.equality)
  from shape obtain sc ec le where
    eq: "(snd (record_outcome oc (t\<lparr>last_run := Some now\<rparr>)))\<lparr>status := status t\<rparr>
           = t\<lparr>last_run := Some now, success_count := sc, error_count := ec, last_error := le\<rparr>"
    by blast
  have a: "\<exists>sc ec le. get_task s' task_id =
            Some (t\<lparr>last_run := Some now, success_count := sc, error_count := ec,
                    last_error := le\<rparr>)"
    using t' eq by auto
  have b: "map_option status (get_task s' task_id) = Some (status t)"
    by (simp add: t')
  have c: "map_option next_run (get_task s' task_id) = Some (next_run t)"
    by (simp add: t' eq)
  have d: "\<forall>k. k \<noteq> task_id \<longrightarrow> get_task s' k = get_task s k"
    by (simp add: s' get_task_update)
  have e: "map fst (tasks s') = map fst (tasks s)"
    by (simp add: s' keys_update)
  show ?thesis using a b c d e by blast
qed

theorem run_once_frame_witness:
  "get_task (init 0) ''news_aggregation''
     = Some (new_task ''News Aggregation'' ''fetch_news.py'' 1800) \<and>
   map_option status
     (get_task (snd (run_once ''news_aggregation'' 5 TimeoutExpired (init 0)))
        ''news_aggregation'') = Some Stopped \<and>
   map_option next_run
     (get_task (snd (run_once ''news_aggregation'' 5 TimeoutExpired (init 0)))
        ''news_aggregation'') = Some None \<and>
   ''market_analysis'' \<noteq> ''news_aggregation'' \<and>
   get_task (snd (run_once ''news_aggregation'' 5 TimeoutExpired (init 0))) ''market_analysis''
     = get_task (init 0) ''market_analysis''"
proof -
  have e: "run_once ''news_aggregation'' 5 TimeoutExpired (init 0)
             = (fst (run_once ''news_aggregation'' 5 TimeoutExpired (init 0)),
                snd (run_once ''news_aggregation'' 5 TimeoutExpired (init 0)))"
    by simp
  from run_once_frame [OF get_task_init e] show ?thesis
    using get_task_init [of 0] by (simp add: new_task_def)
qed

subsection \<open>One execution by \<^verbatim>\<open>run_script\<close>\<close>




subsection \<open>Stopping a task\<close>



subsection \<open>A task that is not registered\<close>

text \<open>
  Claim C8. For a task id that is no key of the registry, \<^verbatim>\<open>start_task\<close>,
  \<^verbatim>\<open>stop_task\<close> and \<^verbatim>\<open>run_once\<close> each return \<open>False\<close> and leave the controller,
  hence every registered task, exactly as it was.
\<close>

theorem unknown_task_rejected:
  assumes "get_task s task_id = None"
  shows "start_task task_id now sp s = (False, s) \<and>
         stop_task task_id s = (False, s) \<and>
         run_once task_id now oc s = (False, s)"
  using assms by (simp add: start_task_def stop_task_def run_once_def)

theorem unknown_task_rejected_witness:
  "get_task (init 0) ''unknown'' = None \<and>
   start_task ''unknown'' 1 (Spawned 0) (init 0) = (False, init 0) \<and>
   stop_task ''unknown'' (init 0) = (False, init 0) \<and>
   run_once ''unknown'' 1 TimeoutExpired (init 0) = (False, init 0)"
proof -
  have h: "get_task (init 0) ''unknown'' = None"
    by (simp add: get_task_def init_def)
  show ?thesis
    using h unknown_task_rejected [OF h, of 1 "Spawned 0" TimeoutExpired] by simp
qed

subsection \<open>The status report\<close>





text \<open>
  Claim C10. The interval reported for a task is its interval in seconds divided by 60
  and rounded down: sixty times the reported value is at most the interval and misses it
  by less than 60, and an interval from 0 to 59 seconds is reported as 0.
\<close>

theorem interval_minutes_floor:
  assumes "i < length (tasks s)"
  shows "task_name (tasks_v (fst (get_status py_int q now s)) ! i) = fst (tasks s ! i) \<and>
         interval_minutes (tasks_v (fst (get_status py_int q now s)) ! i)
           = interval (snd (tasks s ! i)) div 60 \<and>
         60 * interval_minutes (tasks_v (fst (get_status py_int q now s)) ! i)
           \<le> interval (snd (tasks s ! i)) \<and>
         interval (snd (tasks s ! i))
           < 60 * interval_minutes (tasks_v (fst (get_status py_int q now s)) ! i) + 60 \<and>
         (0 \<le> interval (snd (tasks s ! i)) \<and> interval (snd (tasks s ! i)) < 60 \<longrightarrow>
            interval_minutes (tasks_v (fst (get_status py_int q now s)) ! i) = 0)"
proof -
  have v: "tasks_v (fst (get_status py_int q now s)) = map view_of (tasks s)"
    by (simp add: get_status_def Let_def split: prod.splits)
  have e: "view_of (tasks s ! i) =
        \<lparr>task_name = fst (tasks s ! i),
         display_name = name (snd (tasks s ! i)),
         status_v = status (snd (tasks s ! i)),
         last_run_v = last_run (snd (tasks s ! i)),
         next_run_v = next_run (snd (tasks s ! i)),
         success_count_v = success_count (snd (tasks s ! i)),
         error_count_v = error_count (snd (tasks s ! i)),
         last_error_v = last_error (snd (tasks s ! i)),
         interval_minutes = interval (snd (tasks s ! i)) div 60\<rparr>"
    by (simp add: view_of_def split: prod.splits)
  have ar: "60 * (x div 60) \<le> x \<and> x < 60 * (x div 60) + 60" for x :: int
    by presburger
  show ?thesis using assms ar [of "interval (snd (tasks s ! i))"] by (simp add: v e)
qed

theorem interval_minutes_floor_witness:
  "(0::nat) < length (tasks \<lparr>tasks = [(''price'', new_task ''Price'' ''price.py'' 45)],
                           is_running = False, start_time = 0\<rparr>) \<and>
   interval (snd (tasks \<lparr>tasks = [(''price'', new_task ''Price'' ''price.py'' 45)],
                        is_running = False, start_time = 0\<rparr> ! 0)) = 45 \<and>
   interval_minutes
     (tasks_v (fst (get_status int_of_digits TimeoutExpired 9
                      \<lparr>tasks = [(''price'', new_task ''Price'' ''price.py'' 45)],
                       is_running = False, start_time = 0\<rparr>)) ! 0) = 0"
proof -
  let ?s = "\<lparr>tasks = [(''price'', new_task ''Price'' ''price.py'' 45)],
             is_running = False, start_time = 0\<rparr>"
  have h: "0 < length (tasks ?s)" by simp
  have iv: "interval (snd (tasks ?s ! 0)) = 45" by (simp add: new_task_def)
  show ?thesis
    using h iv interval_minutes_floor [OF h, of int_of_digits TimeoutExpired 9] by simp
qed

subsection \<open>The thread handle and the status\<close>


















subsection \<open>The length of the recorded error\<close>


subsection \<open>Two workers for one task\<close>

text \<open>
  Claim C9 at a stop that arrives while the worker's command is in flight, followed by a
  start. The first worker is inside \<^verbatim>\<open>subprocess.run\<close> when \<^verbatim>\<open>stop_task\<close> gives up
  waiting and returns; \<^verbatim>\<open>start_task\<close> finds the status \<open>Stopped\<close> and creates a second
  worker, which reaches its own command while the first is still in its. Both threads are
  then executing the task's script at once, and the status, which is the only stop signal,
  is \<open>Running\<close> for both. The outcome given to \<open>Advance\<close> is read only by the step
  that ends a command, which none of these is.
\<close>

theorem second_worker_after_stop:
  "executing
     (run_events
        [CallStart ''news_aggregation'' 0,
         Advance 0 1 TimeoutExpired,
         Advance 0 2 TimeoutExpired,
         CallStop ''news_aggregation'',
         CallStart ''news_aggregation'' 10,
         Advance 1 11 TimeoutExpired,
         Advance 1 12 TimeoutExpired]
        (boot 0))
     ''news_aggregation'' = [0, 1] \<and>
   active
     (run_events
        [CallStart ''news_aggregation'' 0,
         Advance 0 1 TimeoutExpired,
         Advance 0 2 TimeoutExpired,
         CallStop ''news_aggregation'',
         CallStart ''news_aggregation'' 10,
         Advance 1 11 TimeoutExpired,
         Advance 1 12 TimeoutExpired]
        (boot 0))
     ''news_aggregation'' = [0, 1] \<and>
   map_option status
     (get_task
        (ctl (run_events
                [CallStart ''news_aggregation'' 0,
                 Advance 0 1 TimeoutExpired,
                 Advance 0 2 TimeoutExpired,
                 CallStop ''news_aggregation'',
                 CallStart ''news_aggregation'' 10,
                 Advance 1 11 TimeoutExpired,
                 Advance 1 12 TimeoutExpired]
                (boot 0)))
        ''news_aggregation'') = Some Running \<and>
   map_option thread
     (get_task
        (ctl (run_events
                [CallStart ''news_aggregation'' 0,
                 Advance 0 1 TimeoutExpired,
                 Advance 0 2 TimeoutExpired,
                 CallStop ''news_aggregation'',
                 CallStart ''news_aggregation'' 10,
                 Advance 1 11 TimeoutExpired,
                 Advance 1 12 TimeoutExpired]
                (boot 0)))
        ''news_aggregation'') = Some (Some 1)"
  by (simp add: executing_def active_def run_events_def boot_def init_def start_task_def stop_task_def
      spawns_def worker_step_def run_script_begin_def get_task_def update_task_def new_task_def)

end
